theory Spec2Isabelle
  imports Complex_Main "HOL-Library.Word" "HOL-Library.AList"
begin

section \<open>Values of the embedding\<close>

text \<open>
  The module \<open>pyannote/audio/features/utils.py\<close> reads audio, and reads and writes
  per-frame feature matrices below a cache directory. Its functions are embedded as
  HOL functions over an explicit file system. Every exception the module can raise is a
  value of \<open>error\<close>; a function that can raise returns \<open>error + 'a\<close>, with
  \<open>Inl\<close> for the exception.
\<close>

datatype error =
    ValueError string
  | AttributeError string
  | KeyError string
  | TypeError string
  | IndexError string
  | IOError string
  | StructError string
  | YAMLError string
  | PyannoteFeatureExtractionError string

definition dq :: char where
  "dq = CHR 0x22"

definition sq :: char where
  "sq = CHR 0x27"

text \<open>
  A Python number of the schema (a dimension, a field of a sliding window) is an
  \<open>int\<close> or a finite \<open>float\<close>, taken as the real number it denotes. Python
  compares numbers by value: \<open>2 != 2.0\<close> is false.
\<close>

datatype pynum = PyInt int | PyFloat real

fun num_value :: "pynum \<Rightarrow> real" where
  "num_value (PyInt i) = real_of_int i"
| "num_value (PyFloat r) = r"

definition py_ne :: "pynum \<Rightarrow> pynum \<Rightarrow> bool" where
  "py_ne a b \<longleftrightarrow> num_value a \<noteq> num_value b"

text \<open>
  A cell of a feature matrix is a float. The legacy reader decodes cells from raw
  bytes, so every bit pattern occurs: a cell is a finite number, an infinity or a NaN.
  Arithmetic on finite cells is exact (rounding is not modelled), and zero carries no
  sign: a division by zero takes the divisor as \<open>+0.0\<close>, as numpy does up to a warning.
\<close>

datatype pyfloat = Num real | PosInf | NegInf | NaN

fun pf_sub :: "pyfloat \<Rightarrow> pyfloat \<Rightarrow> pyfloat" where
  "pf_sub (Num a) (Num b) = Num (a - b)"
| "pf_sub NaN _ = NaN"
| "pf_sub _ NaN = NaN"
| "pf_sub PosInf PosInf = NaN"
| "pf_sub NegInf NegInf = NaN"
| "pf_sub PosInf _ = PosInf"
| "pf_sub NegInf _ = NegInf"
| "pf_sub (Num a) PosInf = NegInf"
| "pf_sub (Num a) NegInf = PosInf"

fun pf_div :: "pyfloat \<Rightarrow> pyfloat \<Rightarrow> pyfloat" where
  "pf_div (Num a) (Num b) =
     (if b \<noteq> 0 then Num (a / b)
      else if a = 0 then NaN
      else if 0 < a then PosInf else NegInf)"
| "pf_div NaN _ = NaN"
| "pf_div _ NaN = NaN"
| "pf_div (Num a) _ = Num 0"
| "pf_div PosInf (Num b) = (if b < 0 then NegInf else PosInf)"
| "pf_div NegInf (Num b) = (if b < 0 then PosInf else NegInf)"
| "pf_div _ _ = NaN"

text \<open>
  A numpy array of one or two dimensions. \<open>Array2 c rows\<close> has shape
  \<open>(length rows, c)\<close>; the column count is kept apart from the rows so that an array
  without rows still has its second dimension.
\<close>

datatype 'a ndarray = Array1 "'a list" | Array2 nat "'a list list"

fun shape :: "'a ndarray \<Rightarrow> nat list" where
  "shape (Array1 xs) = [length xs]"
| "shape (Array2 c rows) = [length rows, c]"

definition ndim :: "'a ndarray \<Rightarrow> nat" where
  "ndim y = length (shape y)"

text \<open>\<open>data - mu\<close> and \<open>data / sigma\<close> with a scalar operand, cell by cell.\<close>

definition np_sub :: "pyfloat ndarray \<Rightarrow> pyfloat \<Rightarrow> pyfloat ndarray" where
  "np_sub data m = map_ndarray (\<lambda>x. pf_sub x m) data"

definition np_div :: "pyfloat ndarray \<Rightarrow> pyfloat \<Rightarrow> pyfloat ndarray" where
  "np_div data s = map_ndarray (\<lambda>x. pf_div x s) data"

text \<open>
  \<open>SlidingWindow\<close> and \<open>SlidingWindowFeature\<close> come from \<open>pyannote.core\<close>. A sliding
  window is the three numbers this module reads and persists, a feature the pair the
  module builds.
\<close>

record SlidingWindow =
  start :: pynum
  duration :: pynum
  step :: pynum

record SlidingWindowFeature =
  data :: "pyfloat ndarray"
  sliding_window :: SlidingWindow

section \<open>The file system\<close>

text \<open>
  Paths are strings, compared as strings. A file written by \<open>yaml.dump\<close> is the
  mapping it holds, a file written by \<open>np.save\<close> the array it holds (both libraries
  read back what they wrote), any other file its bytes. The files are kept in a list,
  whose order is the order a directory listing gives. Failures of the operating system
  on a write (permissions, a full disk) are not modelled.
\<close>

type_synonym path = string

type_synonym byte = "8 word"

type_synonym yaml_doc = "(string \<times> pynum) list"

datatype content =
    YamlDoc yaml_doc
  | NpyArray "pyfloat ndarray"
  | Bytes "byte list"

record filesystem =
  files :: "(path \<times> content) list"
  dirs :: "path list"

definition entries :: "filesystem \<Rightarrow> path list" where
  "entries fs = map fst (files fs) @ dirs fs"

text \<open>\<open>os.path.exists\<close>.\<close>

definition path_exists :: "filesystem \<Rightarrow> path \<Rightarrow> bool" where
  "path_exists fs p \<longleftrightarrow> p \<in> set (entries fs)"

definition write_file :: "path \<Rightarrow> content \<Rightarrow> filesystem \<Rightarrow> filesystem" where
  "write_file p c fs = fs\<lparr>files := AList.update p c (files fs)\<rparr>"

text \<open>\<open>os.path.dirname\<close>: the part before the last slash, without its trailing slashes
  unless it consists of slashes only.\<close>

definition rstrip_slash :: "string \<Rightarrow> string" where
  "rstrip_slash s = rev (dropWhile (\<lambda>c. c = CHR ''/'') (rev s))"

definition dirname :: "path \<Rightarrow> path" where
  "dirname p =
     (let head = rev (dropWhile (\<lambda>c. c \<noteq> CHR ''/'') (rev p))
      in if head \<noteq> [] \<and> rstrip_slash head \<noteq> [] then rstrip_slash head else head)"

text \<open>
  Modelled from the spec: \<open>mkdir_p\<close> of \<open>pyannote.audio.util\<close>, the directory-creation
  helper, which is not part of the sources at hand. It creates the directory if needed.
\<close>

definition mkdir_p :: "path \<Rightarrow> filesystem \<Rightarrow> filesystem" where
  "mkdir_p d fs = (if d \<in> set (dirs fs) then fs else fs\<lparr>dirs := dirs fs @ [d]\<rparr>)"

text \<open>\<open>yaml.load\<close> of an open file, \<open>yaml.dump\<close> into one, \<open>np.load\<close> and \<open>np.save\<close>.
  Opening a missing path or a directory is an \<open>IOError\<close>; a file of another kind does
  not parse.\<close>

definition yaml_load :: "filesystem \<Rightarrow> path \<Rightarrow> error + yaml_doc" where
  "yaml_load fs p =
     (case map_of (files fs) p of
        None \<Rightarrow> Inl (IOError p)
      | Some (YamlDoc params) \<Rightarrow> Inr params
      | Some _ \<Rightarrow> Inl (YAMLError p))"

definition yaml_dump :: "yaml_doc \<Rightarrow> path \<Rightarrow> filesystem \<Rightarrow> filesystem" where
  "yaml_dump params p fs = write_file p (YamlDoc params) fs"

definition np_load :: "filesystem \<Rightarrow> path \<Rightarrow> error + pyfloat ndarray" where
  "np_load fs p =
     (case map_of (files fs) p of
        None \<Rightarrow> Inl (IOError p)
      | Some (NpyArray a) \<Rightarrow> Inr a
      | Some _ \<Rightarrow> Inl (ValueError p))"

definition np_save :: "path \<Rightarrow> pyfloat ndarray \<Rightarrow> filesystem \<Rightarrow> filesystem" where
  "np_save p a fs = write_file p (NpyArray a) fs"

text \<open>
  An item is a record of \<open>pyannote.database\<close>; \<open>get_unique_identifier\<close>, of the same
  library, derives its key. The item is represented by that key.
\<close>

type_synonym item = string

definition get_unique_identifier :: "item \<Rightarrow> string" where
  "get_unique_identifier item = item"

section \<open>Precomputed: the matrix cache\<close>

text \<open>
  The attributes \<open>sliding_window_\<close> and \<open>dimension_\<close> of the source are the fields
  \<open>sliding_window_attr\<close> and \<open>dimension_attr\<close>: a name cannot end with an underscore here.
\<close>

record Precomputed =
  root_dir :: path
  use_memmap :: bool
  mu :: "pyfloat option"
  sigma :: "pyfloat option"
  sliding_window_attr :: SlidingWindow
  dimension_attr :: pynum

definition Precomputed_get_path :: "Precomputed \<Rightarrow> item \<Rightarrow> path" where
  "Precomputed_get_path self item = root_dir self @ ''/'' @ get_unique_identifier item @ ''.npy''"

text \<open>
  The constructor \<open>SlidingWindow(duration, step, start, end)\<close> of \<open>pyannote.core\<close>
  raises \<open>ValueError\<close> for a duration that is not positive, for a step that is not
  positive, and for an end that is not after the start, in this order. Every sliding
  window the program is handed has passed it.
\<close>

definition msg_duration :: string where
  "msg_duration = [sq] @ ''duration'' @ [sq] @ '' must be a float > 0.''"

definition msg_step :: string where
  "msg_step = [sq] @ ''step'' @ [sq] @ '' must be a float > 0.''"

definition msg_end :: string where
  "msg_end = [sq] @ ''end'' @ [sq] @ '' must be greater than '' @ [sq] @ ''start'' @ [sq] @ ''.''"

definition SlidingWindow_init ::
  "pynum \<Rightarrow> pynum \<Rightarrow> pynum \<Rightarrow> pynum option \<Rightarrow> error + SlidingWindow" where
  "SlidingWindow_init dur stp st en =
     (if num_value dur \<le> 0 then Inl (ValueError msg_duration)
      else if num_value stp \<le> 0 then Inl (ValueError msg_step)
      else if (case en of None \<Rightarrow> False | Some e \<Rightarrow> num_value e \<le> num_value st)
      then Inl (ValueError msg_end)
      else Inr \<lparr>start = st, duration = dur, step = stp\<rparr>)"

text \<open>
  \<open>SlidingWindow(**params)\<close>: the keywords of the constructor are \<open>duration\<close>,
  \<open>step\<close>, \<open>start\<close> and \<open>end\<close>, with defaults 0.030, 0.010, 0.000 and
  \<open>None\<close>; another keyword is a \<open>TypeError\<close>.
\<close>

definition kw :: "yaml_doc \<Rightarrow> string \<Rightarrow> pynum \<Rightarrow> pynum" where
  "kw params k dflt = (case map_of params k of None \<Rightarrow> dflt | Some v \<Rightarrow> v)"

definition SlidingWindow_kwargs :: "yaml_doc \<Rightarrow> error + SlidingWindow" where
  "SlidingWindow_kwargs params =
     (case filter (\<lambda>k. k \<notin> set [''duration'', ''step'', ''start'', ''end''])
             (map fst params) of
        k # _ \<Rightarrow> Inl (TypeError k)
      | [] \<Rightarrow> SlidingWindow_init (kw params ''duration'' (PyFloat (3 / 100)))
                (kw params ''step'' (PyFloat (1 / 100)))
                (kw params ''start'' (PyFloat 0))
                (map_of params ''end''))"

definition msg_missing_sliding_window :: string where
  "msg_missing_sliding_window = ''missing '' @ [dq] @ ''sliding_window'' @ [dq] @ '' parameter.''"

definition msg_missing_dimension :: string where
  "msg_missing_dimension = ''missing '' @ [dq] @ ''dimension'' @ [dq] @ '' parameter.''"

definition msg_inconsistent_sliding_window :: string where
  "msg_inconsistent_sliding_window = ''inconsistent '' @ [dq] @ ''sliding_window'' @ [dq]"

definition msg_no_attribute :: string where
  "msg_no_attribute =
     [sq] @ ''Precomputed'' @ [sq] @ '' object has no attribute '' @ [sq] @ ''dimensions_'' @ [sq]"

text \<open>
  \<open>Precomputed.__init__\<close>. The result is the object, or the exception, and the file
  system after the call. In the branch of an inconsistent dimension the source builds
  its message from \<open>self.dimensions_\<close>, an attribute the object does not have (the
  attribute set two lines above is \<open>dimension_\<close>): evaluating the arguments of
  \<open>msg.format\<close> raises \<open>AttributeError\<close> before the \<open>ValueError\<close> is built.
\<close>

definition Precomputed_init ::
  "path \<Rightarrow> bool \<Rightarrow> SlidingWindow option \<Rightarrow> pynum option \<Rightarrow> pyfloat option \<Rightarrow> pyfloat option
     \<Rightarrow> filesystem \<Rightarrow> (error + Precomputed) \<times> filesystem" where
  "Precomputed_init rd memmap sw dimension m s fs =
     (let path = rd @ ''/metadata.yml'' in
      if path_exists fs path then
        (case yaml_load fs path of
           Inl e \<Rightarrow> (Inl e, fs)
         | Inr params \<Rightarrow>
            (case map_of params ''dimension'' of
               None \<Rightarrow> (Inl (KeyError ''dimension''), fs)
             | Some stored_dim \<Rightarrow>
                (case SlidingWindow_kwargs (AList.delete ''dimension'' params) of
                   Inl e \<Rightarrow> (Inl e, fs)
                 | Inr stored_sw \<Rightarrow>
                    if (case dimension of None \<Rightarrow> False | Some d \<Rightarrow> py_ne stored_dim d)
                    then (Inl (AttributeError msg_no_attribute), fs)
                    else if (case sw of None \<Rightarrow> False
                             | Some w \<Rightarrow> py_ne (start w) (start stored_sw)
                                 \<or> py_ne (duration w) (duration stored_sw)
                                 \<or> py_ne (step w) (step stored_sw))
                    then (Inl (ValueError msg_inconsistent_sliding_window), fs)
                    else (Inr \<lparr>root_dir = rd, use_memmap = memmap, mu = m, sigma = s,
                               sliding_window_attr = stored_sw, dimension_attr = stored_dim\<rparr>, fs))))
      else
        (case sw of
           None \<Rightarrow> (Inl (ValueError msg_missing_sliding_window), fs)
         | Some w \<Rightarrow>
            (case dimension of
               None \<Rightarrow> (Inl (ValueError msg_missing_dimension), fs)
             | Some d \<Rightarrow>
                (let fs1 = mkdir_p (dirname path) fs;
                     params = [(''start'', start w), (''duration'', duration w),
                               (''step'', step w), (''dimension'', d)];
                     fs2 = yaml_dump params path fs1
                 in (Inr \<lparr>root_dir = rd, use_memmap = memmap, mu = m, sigma = s,
                           sliding_window_attr = w, dimension_attr = d\<rparr>, fs2)))))"

definition msg_no_features :: "string \<Rightarrow> string" where
  "msg_no_features uri = ''No precomputed features for '' @ [dq] @ uri @ [dq] @ ''.''"

text \<open>
  \<open>Precomputed.__call__\<close>. With \<open>mmap_mode='r'\<close> numpy maps the file instead of
  copying it; the array read is the same. The arithmetic \<open>(data - self.mu) / self.sigma\<close>
  with \<open>None\<close> for an operand is a \<open>TypeError\<close>.
\<close>

definition sub_operand :: "pyfloat ndarray \<Rightarrow> pyfloat option \<Rightarrow> error + pyfloat ndarray" where
  "sub_operand a m =
     (case m of None \<Rightarrow> Inl (TypeError ''-'') | Some v \<Rightarrow> Inr (np_sub a v))"

definition div_operand :: "pyfloat ndarray \<Rightarrow> pyfloat option \<Rightarrow> error + pyfloat ndarray" where
  "div_operand a s =
     (case s of None \<Rightarrow> Inl (TypeError ''/'') | Some v \<Rightarrow> Inr (np_div a v))"

definition Precomputed_call ::
  "Precomputed \<Rightarrow> item \<Rightarrow> filesystem \<Rightarrow> (error + SlidingWindowFeature) \<times> filesystem" where
  "Precomputed_call self item fs =
     (let path = Precomputed_get_path self item in
      if \<not> path_exists fs path
      then (Inl (PyannoteFeatureExtractionError (msg_no_features (get_unique_identifier item))), fs)
      else
        (case (if use_memmap self then np_load fs path else np_load fs path) of
           Inl e \<Rightarrow> (Inl e, fs)
         | Inr loaded \<Rightarrow>
            if mu self = None \<and> sigma self = None
            then (Inr \<lparr>data = loaded, sliding_window = sliding_window_attr self\<rparr>, fs)
            else
              (case sub_operand loaded (mu self) of
                 Inl e \<Rightarrow> (Inl e, fs)
               | Inr centred \<Rightarrow>
                  (case div_operand centred (sigma self) of
                     Inl e \<Rightarrow> (Inl e, fs)
                   | Inr scaled \<Rightarrow>
                      (Inr \<lparr>data = scaled, sliding_window = sliding_window_attr self\<rparr>, fs)))))"

text \<open>\<open>Precomputed.dump\<close>.\<close>

definition Precomputed_dump ::
  "Precomputed \<Rightarrow> item \<Rightarrow> SlidingWindowFeature \<Rightarrow> filesystem \<Rightarrow> (error + unit) \<times> filesystem" where
  "Precomputed_dump self item features fs =
     (let path = Precomputed_get_path self item;
          fs1 = mkdir_p (dirname path) fs
      in (Inr (), np_save path (data features) fs1))"

section \<open>PrecomputedHTK: the legacy binary reader\<close>

text \<open>
  \<open>struct.unpack\<close> with a big-endian format: \<open>i\<close> is a signed 32-bit integer,
  \<open>h\<close> a signed 16-bit integer, \<open>f\<close> an IEEE 754 single-precision float (one sign
  bit, eight exponent bits, 23 fraction bits).
\<close>

definition unpack_i :: "byte list \<Rightarrow> int" where
  "unpack_i bs = sint (word_rcat bs :: 32 word)"

definition unpack_h :: "byte list \<Rightarrow> int" where
  "unpack_h bs = sint (word_rcat bs :: 16 word)"

definition unpack_f :: "byte list \<Rightarrow> pyfloat" where
  "unpack_f bs =
     (let w = unat (word_rcat bs :: 32 word);
          negative = (2 ^ 31 \<le> w);
          e = (w div 2 ^ 23) mod 256;
          m = w mod 2 ^ 23
      in if e = 255
         then (if m \<noteq> 0 then NaN else if negative then NegInf else PosInf)
         else (let magnitude = (if e = 0 then real m / 2 ^ 149
                                else real (2 ^ 23 + m) * 2 ^ e / 2 ^ 150)
               in Num (if negative then - magnitude else magnitude)))"

definition msg_unpack :: string where
  "msg_unpack = ''unpack requires a buffer of another size''"

definition unpack_iihh :: "byte list \<Rightarrow> error + (int \<times> int \<times> int \<times> int)" where
  "unpack_iihh bs =
     (if length bs \<noteq> 12 then Inl (StructError msg_unpack)
      else Inr (unpack_i (take 4 bs), unpack_i (take 4 (drop 4 bs)),
                unpack_h (take 2 (drop 8 bs)), unpack_h (take 2 (drop 10 bs))))"

text \<open>\<open>unpack('>' + 'f' * count, data)\<close>; a string repeated a negative number of
  times is empty.\<close>

definition unpack_floats :: "int \<Rightarrow> byte list \<Rightarrow> error + pyfloat list" where
  "unpack_floats count bs =
     (if length bs \<noteq> 4 * nat count then Inl (StructError msg_unpack)
      else Inr (map (\<lambda>j. unpack_f (take 4 (drop (4 * j) bs))) [0..<nat count]))"

text \<open>\<open>fp.read(n)\<close> on the bytes not yet read: at most \<open>n\<close> bytes, all of them when
  \<open>n\<close> is negative. The result is the bytes read and the bytes left.\<close>

definition fp_read :: "int \<Rightarrow> byte list \<Rightarrow> byte list \<times> byte list" where
  "fp_read n fp = (if n < 0 then (fp, []) else (take (nat n) fp, drop (nat n) fp))"

text \<open>\<open>int(sample_size / 4)\<close>: the module divides with true division, and \<open>int\<close>
  truncates towards zero.\<close>

definition int_of_quotient :: "int \<Rightarrow> int \<Rightarrow> int" where
  "int_of_quotient a b = (if 0 \<le> a then a div b else - ((- a) div b))"

text \<open>The loop of \<open>load_htk\<close> over \<open>range(num_samples)\<close>: each round reads
  \<open>sample_size\<close> bytes and unpacks them into one row of \<open>X\<close>.\<close>

fun read_samples :: "int \<Rightarrow> nat \<Rightarrow> byte list \<Rightarrow> error + pyfloat list list" where
  "read_samples sample_size 0 fp = Inr []"
| "read_samples sample_size (Suc i) fp =
     (case fp_read sample_size fp of
        (bs, fp') \<Rightarrow>
          (case unpack_floats (sample_size div 4) bs of
             Inl e \<Rightarrow> Inl e
           | Inr row \<Rightarrow>
              (case read_samples sample_size i fp' of
                 Inl e \<Rightarrow> Inl e
               | Inr rows \<Rightarrow> Inr (row # rows))))"

definition msg_negative_dimensions :: string where
  "msg_negative_dimensions = ''negative dimensions are not allowed''"

text \<open>
  \<open>PrecomputedHTK.load_htk\<close>. \<open>np.empty\<close> refuses a negative dimension. Where the
  loop is reached, a row unpacked has as many floats as \<open>X\<close> has columns. A file held
  as a YAML mapping or as an array is not a legacy file; its bytes are not represented,
  and the read ends in the unpacking error of a malformed file.
\<close>

definition load_htk :: "path \<Rightarrow> filesystem \<Rightarrow> error + (pyfloat ndarray \<times> int)" where
  "load_htk file_htk fs =
     (case map_of (files fs) file_htk of
        None \<Rightarrow> Inl (IOError file_htk)
      | Some (Bytes bytes) \<Rightarrow>
          (case fp_read 12 bytes of
             (header, fp) \<Rightarrow>
               (case unpack_iihh header of
                  Inl e \<Rightarrow> Inl e
                | Inr (num_samples, sample_period, sample_size, _) \<Rightarrow>
                    (let num_features = int_of_quotient sample_size 4 in
                     if num_samples < 0 \<or> num_features < 0
                     then Inl (ValueError msg_negative_dimensions)
                     else
                       (case read_samples sample_size (nat num_samples) fp of
                          Inl e \<Rightarrow> Inl e
                        | Inr rows \<Rightarrow> Inr (Array2 (nat num_features) rows, sample_period)))))
      | Some _ \<Rightarrow> Inl (StructError msg_unpack))"

text \<open>
  \<open>glob('{root_dir}/*/*.htk')\<close>. The library splits the pattern at its last slashes
  into the directory part, which is \<open>os.path.dirname\<close> of \<open>root_dir/*\<close>, and the
  components \<open>*\<close> and \<open>*.htk\<close>. A directory part without the characters \<open>*\<close>,
  \<open>?\<close> and \<open>[\<close> stands for itself. One with such a character is a pattern: the
  library expands it into the directories that match it, and this expansion is the
  parameter \<open>glob_dirs\<close> of the model. Below each directory \<open>b\<close> the matches are the
  entries \<open>os.path.join(os.path.join(b, d), f)\<close> where \<open>d\<close> and \<open>f\<close> are single
  path components, \<open>f\<close> ends with \<open>.htk\<close>, and neither begins with a dot (a star
  does not match a hidden name).
\<close>

definition has_magic :: "string \<Rightarrow> bool" where
  "has_magic s \<longleftrightarrow> (\<exists>c \<in> set s. c \<in> set ''*?['')"

text \<open>\<open>os.path.join\<close> of two parts.\<close>

definition path_join :: "path \<Rightarrow> string \<Rightarrow> path" where
  "path_join a b =
     (if take 1 b = ''/'' then b
      else if a = [] \<or> last a = CHR ''/'' then a @ b
      else a @ ''/'' @ b)"

definition visible_name :: "string \<Rightarrow> bool" where
  "visible_name n \<longleftrightarrow> n \<noteq> [] \<and> take 1 n \<noteq> ''.'' \<and> CHR ''/'' \<notin> set n"

definition ends_with :: "string \<Rightarrow> string \<Rightarrow> bool" where
  "ends_with sfx n \<longleftrightarrow> drop (length n - length sfx) n = sfx"

definition two_components :: "string \<Rightarrow> (string \<times> string) option" where
  "two_components r =
     (case dropWhile (\<lambda>c. c \<noteq> CHR ''/'') r of
        [] \<Rightarrow> None
      | _ # f \<Rightarrow> Some (takeWhile (\<lambda>c. c \<noteq> CHR ''/'') r, f))"

definition matches_htk :: "path \<Rightarrow> path \<Rightarrow> bool" where
  "matches_htk b p \<longleftrightarrow>
     take (length (path_join b [])) p = path_join b [] \<and>
     (case two_components (drop (length (path_join b [])) p) of
        None \<Rightarrow> False
      | Some (d, f) \<Rightarrow> visible_name d \<and> visible_name f \<and> ends_with ''.htk'' f)"

definition glob_htk :: "(path \<Rightarrow> filesystem \<Rightarrow> path list) \<Rightarrow> path \<Rightarrow> filesystem \<Rightarrow> path list" where
  "glob_htk glob_dirs rd fs =
     (let directory = dirname (rd @ ''/*'');
          found_dirs = (if has_magic directory then glob_dirs directory fs else [directory])
      in concat (map (\<lambda>b. filter (matches_htk b) (entries fs)) found_dirs))"

record PrecomputedHTK =
  htk_root_dir :: path
  htk_duration :: pynum
  htk_mu :: pyfloat
  htk_sigma :: pyfloat
  htk_dimension_attr :: pynum
  htk_step :: pynum
  htk_sliding_window_attr :: SlidingWindow

definition msg_no_htk :: "path \<Rightarrow> string" where
  "msg_no_htk rd = ''Could not find any HTK file in '' @ [sq] @ rd @ [sq] @ ''.''"

text \<open>\<open>X.shape[1]\<close>.\<close>

definition shape_at :: "'a ndarray \<Rightarrow> nat \<Rightarrow> error + nat" where
  "shape_at y i =
     (if i < length (shape y) then Inr (shape y ! i)
      else Inl (IndexError ''tuple index out of range''))"

text \<open>
  \<open>PrecomputedHTK.__init__\<close>, which reads the file system and leaves it as it is.
  The defaults of the source are \<open>duration=0.025\<close>, \<open>step=None\<close>, \<open>mu=0.\<close> and
  \<open>sigma=1.\<close>. Its last statement calls the constructor of the sliding window, which
  can refuse the duration and the step.
\<close>

definition default_duration :: pynum where
  "default_duration = PyFloat (25 / 1000)"

definition default_mu :: pyfloat where
  "default_mu = Num 0"

definition default_sigma :: pyfloat where
  "default_sigma = Num 1"

definition PrecomputedHTK_init ::
  "(path \<Rightarrow> filesystem \<Rightarrow> path list) \<Rightarrow> path \<Rightarrow> pynum \<Rightarrow> pynum option \<Rightarrow> pyfloat \<Rightarrow> pyfloat
     \<Rightarrow> filesystem \<Rightarrow> error + PrecomputedHTK" where
  "PrecomputedHTK_init glob_dirs rd dur stp m s fs =
     (case glob_htk glob_dirs rd fs of
        [] \<Rightarrow> Inl (ValueError (msg_no_htk rd))
      | file_htk # _ \<Rightarrow>
          (case load_htk file_htk fs of
             Inl e \<Rightarrow> Inl e
           | Inr (X, sample_period) \<Rightarrow>
               (case shape_at X 1 of
                  Inl e \<Rightarrow> Inl e
                | Inr columns \<Rightarrow>
                    (let step0 = PyFloat (real_of_int sample_period * (1 / 10 ^ 7));
                         step1 = (case stp of None \<Rightarrow> step0 | Some given \<Rightarrow> given)
                     in case SlidingWindow_init dur step1 (PyFloat 0) None of
                          Inl e \<Rightarrow> Inl e
                        | Inr window \<Rightarrow>
                            Inr \<lparr>htk_root_dir = rd, htk_duration = dur, htk_mu = m,
                                 htk_sigma = s, htk_dimension_attr = PyInt (int columns),
                                 htk_step = step1, htk_sliding_window_attr = window\<rparr>))))"

definition PrecomputedHTK_get_path :: "path \<Rightarrow> item \<Rightarrow> path" where
  "PrecomputedHTK_get_path rd item = rd @ ''/'' @ get_unique_identifier item @ ''.htk''"

text \<open>\<open>PrecomputedHTK.__call__\<close>.\<close>

definition PrecomputedHTK_call ::
  "PrecomputedHTK \<Rightarrow> item \<Rightarrow> filesystem \<Rightarrow> error + SlidingWindowFeature" where
  "PrecomputedHTK_call self item fs =
     (let file_htk = PrecomputedHTK_get_path (htk_root_dir self) item in
      case load_htk file_htk fs of
        Inl e \<Rightarrow> Inl e
      | Inr (X, _) \<Rightarrow>
          Inr \<lparr>data = np_div (np_sub X (htk_mu self)) (htk_sigma self),
               sliding_window = htk_sliding_window_attr self\<rparr>)"

section \<open>read_audio\<close>

text \<open>
  Decoding is done by libraries (\<open>sphfile\<close>, \<open>librosa\<close>), which are parameters of
  the model: \<open>sph\<close> gives the content and the sample rate of a SPHERE file,
  \<open>load\<close> is \<open>librosa.load\<close> with \<open>mono=False\<close>, and \<open>resample\<close> and \<open>to_mono\<close>
  are the functions of \<open>librosa\<close> of these names.
\<close>

record 'a audio_lib =
  sph :: "path \<Rightarrow> error + ('a ndarray \<times> int)"
  load :: "path \<Rightarrow> int option \<Rightarrow> error + ('a ndarray \<times> int)"
  resample :: "'a ndarray \<Rightarrow> int \<Rightarrow> int \<Rightarrow> 'a ndarray"
  to_mono :: "'a ndarray \<Rightarrow> 'a ndarray"

text \<open>The dictionary \<open>current_file\<close>: the key \<open>audio\<close>, and the key \<open>channel\<close>
  when it is there.\<close>

record current_file =
  audio :: path
  channel :: "int option"

text \<open>\<open>y.reshape(1, -1)\<close> of an array of one dimension.\<close>

fun reshape_1 :: "'a ndarray \<Rightarrow> 'a ndarray" where
  "reshape_1 (Array1 xs) = Array2 (length xs) [xs]"
| "reshape_1 (Array2 c rows) = Array2 (length rows * c) [concat rows]"

text \<open>\<open>y[i, :]\<close>: a negative index counts from the last row, an index out of range is
  an \<open>IndexError\<close>, and so are two indices into an array of one dimension. The result
  has one dimension.\<close>

fun row_at :: "'a ndarray \<Rightarrow> int \<Rightarrow> error + 'a ndarray" where
  "row_at (Array1 xs) i = Inl (IndexError ''too many indices for array'')"
| "row_at (Array2 c rows) i =
     (let n = int (length rows); j = (if i < 0 then n + i else i)
      in if 0 \<le> j \<and> j < n then Inr (Array1 (rows ! nat j))
         else Inl (IndexError ''index is out of bounds''))"

text \<open>\<open>y.T\<close>: an array of one dimension is its own transpose.\<close>

fun transpose_array :: "'a ndarray \<Rightarrow> 'a ndarray" where
  "transpose_array (Array1 xs) = Array1 xs"
| "transpose_array (Array2 c rows) =
     Array2 (length rows) (map (\<lambda>j. map (\<lambda>r. r ! j) rows) [0..<c])"

definition read_audio ::
  "'a audio_lib \<Rightarrow> current_file \<Rightarrow> int option \<Rightarrow> bool \<Rightarrow> error + ('a ndarray \<times> int)" where
  "read_audio lib cf sample_rate mono_mix =
     (case (if drop (length (audio cf) - 4) (audio cf) = ''.sph''
            then (case sph lib (audio cf) of
                    Inl e \<Rightarrow> Inl e
                  | Inr (content, native_rate) \<Rightarrow>
                      (case sample_rate of
                         None \<Rightarrow> Inr (content, native_rate)
                       | Some rate \<Rightarrow>
                           if native_rate \<noteq> rate
                           then Inr (resample lib content native_rate rate, rate)
                           else Inr (content, native_rate)))
            else load lib (audio cf) sample_rate) of
        Inl e \<Rightarrow> Inl e
      | Inr (y0, rate) \<Rightarrow>
          (let y1 = (if ndim y0 = 1 then reshape_1 y0 else y0) in
           case (case channel cf of None \<Rightarrow> Inr y1 | Some ch \<Rightarrow> row_at y1 (ch - 1)) of
             Inl e \<Rightarrow> Inl e
           | Inr y2 \<Rightarrow>
               (let y3 = (if mono_mix then to_mono lib y2 else y2)
                in Inr (transpose_array y3, rate))))"

section \<open>The legacy format in the words of the specification\<close>

text \<open>
  A legacy file is a header of twelve bytes, big-endian (\<open>int32 num_samples\<close>,
  \<open>int32 sample_period\<close>, \<open>int16 sample_size_bytes\<close>, \<open>int16 reserved\<close>), followed
  by \<open>num_samples\<close> records of \<open>sample_size_bytes\<close> bytes, each of them
  \<open>sample_size_bytes / 4\<close> big-endian floats of four bytes. \<open>legacy_file\<close> says that
  the bytes have this layout, and \<open>legacy_rows\<close> is the matrix the layout stands for:
  cell \<open>j\<close> of record \<open>i\<close> is at offset \<open>12 + i * (4 * k) + 4 * j\<close>, for \<open>k\<close> floats
  in a record.
\<close>

definition legacy_file :: "byte list \<Rightarrow> int \<Rightarrow> int \<Rightarrow> int \<Rightarrow> bool" where
  "legacy_file bs num_samples sample_period sample_size \<longleftrightarrow>
     (case unpack_iihh (take 12 bs) of
        Inl _ \<Rightarrow> False
      | Inr (n, p, z, _) \<Rightarrow> n = num_samples \<and> p = sample_period \<and> z = sample_size)
     \<and> 0 \<le> num_samples \<and> 0 \<le> sample_size \<and> sample_size mod 4 = 0
     \<and> length bs = 12 + nat num_samples * nat sample_size"

definition legacy_rows :: "byte list \<Rightarrow> nat \<Rightarrow> nat \<Rightarrow> pyfloat list list" where
  "legacy_rows bs n k =
     map (\<lambda>i. map (\<lambda>j. unpack_f (take 4 (drop (12 + i * (4 * k) + 4 * j) bs))) [0..<k]) [0..<n]"

section \<open>Example inputs\<close>

text \<open>A legacy file with the header \<open>(2, 100000, 8, 0)\<close> and the records
  \<open>(1.0, 2.0)\<close> and \<open>(3.0, 4.0)\<close>, alone below \<open>feat/db\<close>.\<close>

definition example_htk_bytes :: "byte list" where
  "example_htk_bytes =
     [0, 0, 0, 2,  0, 1, 0x86, 0xA0,  0, 8,  0, 0,
      0x3F, 0x80, 0, 0,  0x40, 0, 0, 0,
      0x40, 0x40, 0, 0,  0x40, 0x80, 0, 0]"

definition example_htk_fs :: filesystem where
  "example_htk_fs =
     \<lparr>files = [(''feat/db/a.htk'', Bytes example_htk_bytes)], dirs = [''feat'', ''feat/db'']\<rparr>"


text \<open>The same file with the sample period 0 in its header.\<close>

definition example_zero_period_bytes :: "byte list" where
  "example_zero_period_bytes =
     [0, 0, 0, 2,  0, 0, 0, 0,  0, 8,  0, 0,
      0x3F, 0x80, 0, 0,  0x40, 0, 0, 0,
      0x40, 0x40, 0, 0,  0x40, 0x80, 0, 0]"

definition example_zero_period_fs :: filesystem where
  "example_zero_period_fs =
     \<lparr>files = [(''feat/db/a.htk'', Bytes example_zero_period_bytes)],
      dirs = [''feat'', ''feat/db'']\<rparr>"

text \<open>The expansion of a directory pattern on the example file systems, where the one
  directory that \<open>fe*\<close> matches is \<open>feat\<close>. No other pattern is used.\<close>

definition example_glob_dirs :: "path \<Rightarrow> filesystem \<Rightarrow> path list" where
  "example_glob_dirs pattern fs =
     (if pattern = ''fe*'' \<and> ''feat'' \<in> set (dirs fs) then [''feat''] else [])"

definition example_window :: SlidingWindow where
  "example_window = \<lparr>start = PyFloat 0, duration = PyFloat (25 / 1000), step = PyFloat (1 / 100)\<rparr>"

text \<open>A cache directory whose schema has dimension 2 and which holds the matrix
  \<open>[[6.0, 10.0]]\<close> under the key \<open>db/a\<close>, and an empty file system.\<close>

definition example_cache_fs :: filesystem where
  "example_cache_fs =
     \<lparr>files = [(''cache/metadata.yml'',
                 YamlDoc [(''start'', PyFloat 0), (''duration'', PyFloat (25 / 1000)),
                          (''step'', PyFloat (1 / 100)), (''dimension'', PyInt 2)]),
               (''cache/db/a.npy'', NpyArray (Array2 2 [[Num 6, Num 10]]))],
      dirs = [''cache'', ''cache/db'']\<rparr>"

definition empty_fs :: filesystem where
  "empty_fs = \<lparr>files = [], dirs = []\<rparr>"

definition example_cache :: "pyfloat option \<Rightarrow> pyfloat option \<Rightarrow> Precomputed" where
  "example_cache m s =
     \<lparr>root_dir = ''cache'', use_memmap = True, mu = m, sigma = s,
      sliding_window_attr = example_window, dimension_attr = PyInt 2\<rparr>"

text \<open>A decoder that gives two channels of three samples at 16 kHz for every file.\<close>

definition example_lib :: "int audio_lib" where
  "example_lib =
     \<lparr>sph = (\<lambda>p. Inr (Array2 3 [[1, 2, 3], [4, 5, 6]], 16000)),
      load = (\<lambda>p r. Inr (Array2 3 [[1, 2, 3], [4, 5, 6]], 16000)),
      resample = (\<lambda>y a b. y),
      to_mono = (\<lambda>y. y)\<rparr>"

section \<open>Facts about the file system\<close>

lemma files_mkdir_p: "files (mkdir_p d fs) = files fs"
  by (simp add: mkdir_p_def)

lemma dirs_mkdir_p: "d \<in> set (dirs (mkdir_p d fs))"
  by (simp add: mkdir_p_def)

lemma lookup_write_file: "map_of (files (write_file p c fs)) p = Some c"
  by (simp add: write_file_def update_conv')

lemma exists_write_file: "path_exists (write_file p c fs) p"
  by (simp add: path_exists_def entries_def write_file_def dom_update)

lemma dirs_write_file: "dirs (write_file p c fs) = dirs fs"
  by (simp add: write_file_def)

lemma absent_lookup: "\<not> path_exists fs p \<Longrightarrow> map_of (files fs) p = None"
  by (simp add: path_exists_def entries_def map_of_eq_None_iff)

lemma present_lookup: "map_of (files fs) p = Some c \<Longrightarrow> path_exists fs p"
  by (auto simp add: path_exists_def entries_def dest: map_of_SomeD intro: rev_image_eqI)

lemma py_ne_same: "\<not> py_ne a a"
  by (simp add: py_ne_def)

lemma np_load_np_save: "np_load (np_save p a fs) p = Inr a"
  by (simp add: np_load_def np_save_def lookup_write_file)

lemma exists_np_save: "path_exists (np_save p a fs) p"
  by (simp add: np_save_def exists_write_file)

section \<open>The matrix cache: reading and writing\<close>

text \<open>
  Claim C1. For every key and every feature, on a cache whose \<open>mu\<close> and \<open>sigma\<close> are
  unset, \<open>dump\<close> followed by \<open>__call__\<close> with the same key gives a feature with the
  matrix that was written, cell for cell, on the sliding window the cache resolved when
  it was opened. The read leaves the file system as the write left it. The statement needs
  no condition on the number of columns of the matrix.
\<close>

theorem precomputed_round_trip:
  assumes "mu self = None" and "sigma self = None"
  shows "Precomputed_call self item (snd (Precomputed_dump self item features fs))
       = (Inr \<lparr>data = data features, sliding_window = sliding_window_attr self\<rparr>,
          snd (Precomputed_dump self item features fs))"
  using assms
  by (simp add: Precomputed_call_def Precomputed_dump_def Let_def np_load_np_save exists_np_save)

text \<open>The round trip of a matrix of two rows into an empty file system.\<close>

theorem precomputed_round_trip_witness:
  "mu (example_cache None None) = None \<and> sigma (example_cache None None) = None \<and>
   Precomputed_call (example_cache None None) ''db/b''
     (snd (Precomputed_dump (example_cache None None) ''db/b''
        \<lparr>data = Array2 2 [[Num 1, Num 2], [Num 3, Num 4]], sliding_window = example_window\<rparr> empty_fs))
   = (Inr \<lparr>data = Array2 2 [[Num 1, Num 2], [Num 3, Num 4]], sliding_window = example_window\<rparr>,
      \<lparr>files = [(''cache/db/b.npy'', NpyArray (Array2 2 [[Num 1, Num 2], [Num 3, Num 4]]))],
       dirs = [''cache/db'']\<rparr>)"
  using precomputed_round_trip [of "example_cache None None" "''db/b''"
      "\<lparr>data = Array2 2 [[Num 1, Num 2], [Num 3, Num 4]], sliding_window = example_window\<rparr>" empty_fs]
  by (simp add: example_cache_def Precomputed_dump_def Precomputed_get_path_def
      get_unique_identifier_def dirname_def rstrip_slash_def mkdir_p_def np_save_def write_file_def
      empty_fs_def Let_def)

text \<open>
  Claim C4. When nothing exists at the path of a key, \<open>__call__\<close> raises
  \<open>PyannoteFeatureExtractionError\<close> with the message
  \<open>No precomputed features for "<key>".\<close>, and the file system after the failed read
  is the file system before it: no file has been created.
\<close>

theorem read_absent_key:
  assumes "\<not> path_exists fs (Precomputed_get_path self item)"
  shows "Precomputed_call self item fs
       = (Inl (PyannoteFeatureExtractionError
                 (''No precomputed features for '' @ [dq] @ get_unique_identifier item @ [dq] @ ''.'')), fs)"
  using assms by (simp add: Precomputed_call_def Let_def msg_no_features_def)

text \<open>A key that was never written, in the example cache.\<close>

theorem read_absent_key_witness:
  "\<not> path_exists example_cache_fs (Precomputed_get_path (example_cache None None) ''db/zz'') \<and>
   Precomputed_call (example_cache None None) ''db/zz'' example_cache_fs
     = (Inl (PyannoteFeatureExtractionError (''No precomputed features for '' @ [dq] @ ''db/zz'' @ [dq] @ ''.'')),
        example_cache_fs)"
  using read_absent_key [of example_cache_fs "example_cache None None" "''db/zz''"]
  by (simp add: path_exists_def entries_def example_cache_fs_def example_cache_def
      Precomputed_get_path_def get_unique_identifier_def)

text \<open>
  Claim C5, as amended. \<open>__call__\<close> returns the stored matrix unchanged when both \<open>mu\<close>
  and \<open>sigma\<close> are unset, and the matrix with every cell \<open>x\<close> replaced by
  \<open>(x - mu) / sigma\<close> when both are set. The claim as written also promises the stored
  matrix when exactly one of the two is set; there the source computes
  \<open>(data - self.mu) / self.sigma\<close> with \<open>None\<close> for an operand and raises, which
  \<open>one_operand_counterexample\<close> shows below.
\<close>

theorem precomputed_normalisation:
  assumes "np_load fs (Precomputed_get_path self item) = Inr raw"
  shows "(mu self = None \<and> sigma self = None \<longrightarrow>
            Precomputed_call self item fs
              = (Inr \<lparr>data = raw, sliding_window = sliding_window_attr self\<rparr>, fs))
       \<and> (\<forall>m s. mu self = Some m \<and> sigma self = Some s \<longrightarrow>
            Precomputed_call self item fs
              = (Inr \<lparr>data = map_ndarray (\<lambda>x. pf_div (pf_sub x m) s) raw,
                       sliding_window = sliding_window_attr self\<rparr>, fs))"
proof -
  from assms have "path_exists fs (Precomputed_get_path self item)"
    by (auto simp add: np_load_def split: option.splits intro: present_lookup)
  with assms show ?thesis
    by (simp add: Precomputed_call_def Let_def sub_operand_def div_operand_def np_sub_def
        np_div_def ndarray.map_comp comp_def)
qed

text \<open>With \<open>mu = 2.0\<close> and \<open>sigma = 4.0\<close> the stored matrix \<open>[[6.0, 10.0]]\<close> is read
  as \<open>[[1.0, 2.0]]\<close>; with both unset it is read as it is.\<close>

theorem precomputed_normalisation_witness:
  "np_load example_cache_fs (Precomputed_get_path (example_cache (Some (Num 2)) (Some (Num 4))) ''db/a'')
     = Inr (Array2 2 [[Num 6, Num 10]]) \<and>
   Precomputed_call (example_cache (Some (Num 2)) (Some (Num 4))) ''db/a'' example_cache_fs
     = (Inr \<lparr>data = Array2 2 [[Num 1, Num 2]], sliding_window = example_window\<rparr>, example_cache_fs) \<and>
   Precomputed_call (example_cache None None) ''db/a'' example_cache_fs
     = (Inr \<lparr>data = Array2 2 [[Num 6, Num 10]], sliding_window = example_window\<rparr>, example_cache_fs)"
  using precomputed_normalisation [of example_cache_fs "example_cache (Some (Num 2)) (Some (Num 4))"
      "''db/a''" "Array2 2 [[Num 6, Num 10]]"]
    precomputed_normalisation [of example_cache_fs "example_cache None None"
      "''db/a''" "Array2 2 [[Num 6, Num 10]]"]
  by (simp add: example_cache_def Precomputed_get_path_def get_unique_identifier_def np_load_def
      example_cache_fs_def)

text \<open>With exactly one of the two set, the arithmetic meets \<open>None\<close> and the read
  raises \<open>TypeError\<close>.\<close>

lemma one_operand_raises:
  assumes "np_load fs (Precomputed_get_path self item) = Inr raw"
    and "(mu self = None) \<noteq> (sigma self = None)"
  shows "\<exists>operator. Precomputed_call self item fs = (Inl (TypeError operator), fs)"
proof -
  from assms(1) have "path_exists fs (Precomputed_get_path self item)"
    by (auto simp add: np_load_def split: option.splits intro: present_lookup)
  with assms show ?thesis
    by (cases "mu self"; cases "sigma self")
      (simp_all add: Precomputed_call_def Let_def sub_operand_def div_operand_def)
qed

text \<open>
  Claim C5 as written fails: with \<open>mu = 2.0\<close> and \<open>sigma\<close> unset, the two are not
  both set, and the read of the stored matrix \<open>[[6.0, 10.0]]\<close> does not return it.
\<close>

theorem one_operand_counterexample:
  "\<not> (\<not> (mu (example_cache (Some (Num 2)) None) \<noteq> None \<and> sigma (example_cache (Some (Num 2)) None) \<noteq> None)
       \<longrightarrow> Precomputed_call (example_cache (Some (Num 2)) None) ''db/a'' example_cache_fs
             = (Inr \<lparr>data = Array2 2 [[Num 6, Num 10]], sliding_window = example_window\<rparr>, example_cache_fs))"
  by (simp add: example_cache_def Precomputed_call_def Let_def Precomputed_get_path_def
      get_unique_identifier_def path_exists_def entries_def example_cache_fs_def np_load_def
      sub_operand_def div_operand_def)

section \<open>The matrix cache: opening\<close>

lemma kwargs_own:
  assumes "0 < num_value (duration w)" and "0 < num_value (step w)"
  shows "SlidingWindow_kwargs [(''start'', start w), (''duration'', duration w), (''step'', step w)]
       = Inr w"
  using assms by (simp add: SlidingWindow_kwargs_def SlidingWindow_init_def kw_def)

lemma init_existing_unchanged:
  "path_exists fs (rd @ ''/metadata.yml'') \<Longrightarrow> snd (Precomputed_init rd memmap sw dimension m s fs) = fs"
  by (simp add: Precomputed_init_def Let_def split: sum.splits option.splits)

text \<open>
  Claim C3. When nothing exists at \<open>root_dir/metadata.yml\<close>: without a sliding window
  the open raises \<open>ValueError\<close> with the message \<open>missing "sliding_window" parameter.\<close>;
  with a sliding window and without a dimension it raises \<open>ValueError\<close> with the message
  \<open>missing "dimension" parameter.\<close>; in both cases the file system is unchanged. With
  both, the open succeeds, the object holds exactly the sliding window and the dimension
  given, the directory of the schema file exists afterwards, and the schema file reads
  back as the mapping of \<open>start\<close>, \<open>duration\<close>, \<open>step\<close> and \<open>dimension\<close> to
  these values.
\<close>

theorem first_open:
  assumes "\<not> path_exists fs (rd @ ''/metadata.yml'')"
  shows "(sw = None \<longrightarrow>
            Precomputed_init rd memmap sw dimension m s fs
              = (Inl (ValueError (''missing '' @ [dq] @ ''sliding_window'' @ [dq] @ '' parameter.'')), fs))
       \<and> (sw \<noteq> None \<and> dimension = None \<longrightarrow>
            Precomputed_init rd memmap sw dimension m s fs
              = (Inl (ValueError (''missing '' @ [dq] @ ''dimension'' @ [dq] @ '' parameter.'')), fs))
       \<and> (\<forall>w d. sw = Some w \<and> dimension = Some d \<longrightarrow>
            (\<exists>self fs'. Precomputed_init rd memmap sw dimension m s fs = (Inr self, fs')
               \<and> sliding_window_attr self = w \<and> dimension_attr self = d
               \<and> dirname (rd @ ''/metadata.yml'') \<in> set (dirs fs')
               \<and> yaml_load fs' (rd @ ''/metadata.yml'')
                    = Inr [(''start'', start w), (''duration'', duration w),
                           (''step'', step w), (''dimension'', d)]))"
  using assms
  by (auto simp add: Precomputed_init_def Let_def yaml_dump_def yaml_load_def lookup_write_file
      dirs_write_file dirs_mkdir_p msg_missing_sliding_window_def msg_missing_dimension_def)

text \<open>The three cases on an empty file system.\<close>

theorem first_open_witness:
  "\<not> path_exists empty_fs (''cache'' @ ''/metadata.yml'') \<and>
   Precomputed_init ''cache'' True None (Some (PyInt 2)) None None empty_fs
     = (Inl (ValueError (''missing '' @ [dq] @ ''sliding_window'' @ [dq] @ '' parameter.'')), empty_fs) \<and>
   Precomputed_init ''cache'' True (Some example_window) None None None empty_fs
     = (Inl (ValueError (''missing '' @ [dq] @ ''dimension'' @ [dq] @ '' parameter.'')), empty_fs) \<and>
   (\<exists>self fs'. Precomputed_init ''cache'' True (Some example_window) (Some (PyInt 2)) None None empty_fs
        = (Inr self, fs')
      \<and> sliding_window_attr self = example_window \<and> dimension_attr self = PyInt 2
      \<and> ''cache'' \<in> set (dirs fs')
      \<and> yaml_load fs' ''cache/metadata.yml''
           = Inr [(''start'', PyFloat 0), (''duration'', PyFloat (25 / 1000)),
                  (''step'', PyFloat (1 / 100)), (''dimension'', PyInt 2)])"
  using first_open [of empty_fs "''cache''" None True "Some (PyInt 2)" None None]
    first_open [of empty_fs "''cache''" "Some example_window" True None None None]
    first_open [of empty_fs "''cache''" "Some example_window" True "Some (PyInt 2)" None None]
  by (simp add: path_exists_def entries_def empty_fs_def dirname_def rstrip_slash_def Let_def
      example_window_def)

text \<open>
  Claim C9. A sliding window is an object of \<open>pyannote.core\<close>, so its duration and its
  step are positive. When nothing exists at \<open>root_dir/metadata.yml\<close>, an open with such
  a window and a dimension succeeds and leaves a schema file that reads back as the
  mapping of \<open>start\<close>, \<open>duration\<close>, \<open>step\<close> and \<open>dimension\<close> to these values.
  On the file system it leaves, a second open with the same pair succeeds, and so does an
  open that is given neither: each resolves to the sliding window and the dimension of the
  first open, which the one without parameters can only have from the schema file. Once
  the schema file exists no open modifies the file system, whatever its parameters.
\<close>

theorem schema_reopen:
  assumes fresh: "\<not> path_exists fs (rd @ ''/metadata.yml'')"
    and positive: "0 < num_value (duration w)" "0 < num_value (step w)"
  shows "\<exists>first fs1 second third.
           Precomputed_init rd memmap (Some w) (Some d) m s fs = (Inr first, fs1)
         \<and> sliding_window_attr first = w \<and> dimension_attr first = d
         \<and> yaml_load fs1 (rd @ ''/metadata.yml'')
             = Inr [(''start'', start w), (''duration'', duration w),
                    (''step'', step w), (''dimension'', d)]
         \<and> Precomputed_init rd memmap' (Some w) (Some d) m' s' fs1 = (Inr second, fs1)
         \<and> sliding_window_attr second = w \<and> dimension_attr second = d
         \<and> Precomputed_init rd memmap'' None None m'' s'' fs1 = (Inr third, fs1)
         \<and> sliding_window_attr third = w \<and> dimension_attr third = d
         \<and> (\<forall>any_memmap any_window any_dimension any_mu any_sigma.
               snd (Precomputed_init rd any_memmap any_window any_dimension any_mu any_sigma fs1)
                 = fs1)"
proof -
  let ?path = "rd @ ''/metadata.yml''"
  let ?doc = "[(''start'', start w), (''duration'', duration w), (''step'', step w), (''dimension'', d)]"
  let ?fs1 = "yaml_dump ?doc ?path (mkdir_p (dirname ?path) fs)"
  have first: "Precomputed_init rd memmap (Some w) (Some d) m s fs
      = (Inr \<lparr>root_dir = rd, use_memmap = memmap, mu = m, sigma = s,
               sliding_window_attr = w, dimension_attr = d\<rparr>, ?fs1)"
    using fresh by (simp add: Precomputed_init_def Let_def)
  have there: "path_exists ?fs1 ?path"
    by (simp add: yaml_dump_def exists_write_file)
  have doc: "yaml_load ?fs1 ?path = Inr ?doc"
    by (simp add: yaml_load_def yaml_dump_def lookup_write_file)
  note stored = kwargs_own [OF positive]
  have second: "Precomputed_init rd memmap' (Some w) (Some d) m' s' ?fs1
      = (Inr \<lparr>root_dir = rd, use_memmap = memmap', mu = m', sigma = s',
               sliding_window_attr = w, dimension_attr = d\<rparr>, ?fs1)"
    by (simp add: Precomputed_init_def Let_def there doc stored py_ne_same)
  have third: "Precomputed_init rd memmap'' None None m'' s'' ?fs1
      = (Inr \<lparr>root_dir = rd, use_memmap = memmap'', mu = m'', sigma = s'',
               sliding_window_attr = w, dimension_attr = d\<rparr>, ?fs1)"
    by (simp add: Precomputed_init_def Let_def there doc stored)
  have later: "snd (Precomputed_init rd any_memmap any_window any_dimension any_mu any_sigma ?fs1)
      = ?fs1" for any_memmap any_window any_dimension any_mu any_sigma
    using there by (rule init_existing_unchanged)
  show ?thesis
    using first second third doc later by simp
qed

text \<open>Three opens of \<open>cache\<close>, starting from an empty file system: with the pair, with
  the pair and other normalisation parameters, and with nothing.\<close>

theorem schema_reopen_witness:
  "\<not> path_exists empty_fs (''cache'' @ ''/metadata.yml'') \<and>
   0 < num_value (duration example_window) \<and> 0 < num_value (step example_window) \<and>
   (\<exists>first fs1 second third.
      Precomputed_init ''cache'' True (Some example_window) (Some (PyInt 2)) None None empty_fs
        = (Inr first, fs1)
    \<and> sliding_window_attr first = example_window \<and> dimension_attr first = PyInt 2
    \<and> yaml_load fs1 ''cache/metadata.yml''
        = Inr [(''start'', PyFloat 0), (''duration'', PyFloat (25 / 1000)),
               (''step'', PyFloat (1 / 100)), (''dimension'', PyInt 2)]
    \<and> Precomputed_init ''cache'' False (Some example_window) (Some (PyInt 2))
         (Some (Num 2)) (Some (Num 4)) fs1 = (Inr second, fs1)
    \<and> sliding_window_attr second = example_window \<and> dimension_attr second = PyInt 2
    \<and> Precomputed_init ''cache'' True None None None None fs1 = (Inr third, fs1)
    \<and> sliding_window_attr third = example_window \<and> dimension_attr third = PyInt 2)"
proof -
  have fresh: "\<not> path_exists empty_fs (''cache'' @ ''/metadata.yml'')"
    by (simp add: path_exists_def entries_def empty_fs_def)
  have positive: "0 < num_value (duration example_window)" "0 < num_value (step example_window)"
    by (simp_all add: example_window_def)
  from schema_reopen [OF fresh positive, of True "PyInt 2" None None
      False "Some (Num 2)" "Some (Num 4)" True None None]
  obtain first fs1 second third where
    "Precomputed_init ''cache'' True (Some example_window) (Some (PyInt 2)) None None empty_fs
        = (Inr first, fs1)"
    "sliding_window_attr first = example_window" "dimension_attr first = PyInt 2"
    "yaml_load fs1 (''cache'' @ ''/metadata.yml'')
        = Inr [(''start'', start example_window), (''duration'', duration example_window),
               (''step'', step example_window), (''dimension'', PyInt 2)]"
    "Precomputed_init ''cache'' False (Some example_window) (Some (PyInt 2))
         (Some (Num 2)) (Some (Num 4)) fs1 = (Inr second, fs1)"
    "sliding_window_attr second = example_window" "dimension_attr second = PyInt 2"
    "Precomputed_init ''cache'' True None None None None fs1 = (Inr third, fs1)"
    "sliding_window_attr third = example_window" "dimension_attr third = PyInt 2"
    by blast
  then show ?thesis
    using fresh positive by (auto simp add: example_window_def)
qed

text \<open>
  When the schema file exists and stores a dimension that differs from the one given,
  the open ends in the \<open>AttributeError\<close> of \<open>self.dimensions_\<close>, for every schema
  file that the constructor of the sliding window accepts.
\<close>

lemma dimension_mismatch:
  assumes "yaml_load fs (rd @ ''/metadata.yml'') = Inr params"
    and "map_of params ''dimension'' = Some stored"
    and "SlidingWindow_kwargs (AList.delete ''dimension'' params) = Inr stored_sw"
    and "py_ne stored given"
  shows "Precomputed_init rd memmap sw (Some given) m s fs
       = (Inl (AttributeError msg_no_attribute), fs)"
proof -
  from assms(1) have "path_exists fs (rd @ ''/metadata.yml'')"
    by (auto simp add: yaml_load_def split: option.splits intro: present_lookup)
  with assms show ?thesis
    by (simp add: Precomputed_init_def Let_def)
qed

text \<open>
  Claim C2. The claim expects a configuration-mismatch error that names the dimension
  given and the dimension stored. The example cache stores dimension 2; opened with
  dimension 3, the source raises \<open>AttributeError\<close> instead, with the message
  \<open>'Precomputed' object has no attribute 'dimensions_'\<close>, which names neither.
\<close>

theorem dimension_mismatch_raises_attribute_error:
  "Precomputed_init ''cache'' True None (Some (PyInt 3)) None None example_cache_fs
     = (Inl (AttributeError
              ([sq] @ ''Precomputed'' @ [sq] @ '' object has no attribute '' @ [sq] @ ''dimensions_'' @ [sq])),
        example_cache_fs)"
  by (simp add: Precomputed_init_def Let_def path_exists_def entries_def example_cache_fs_def
      yaml_load_def SlidingWindow_kwargs_def SlidingWindow_init_def kw_def py_ne_def
      msg_no_attribute_def)

section \<open>The legacy reader: decoding\<close>

lemma nat_quarter:
  assumes "0 \<le> ss" and "ss mod 4 = 0"
  shows "4 * nat (ss div 4) = nat ss"
proof -
  have "ss = 4 * (ss div 4)" using assms(2) by presburger
  then have "nat ss = nat (4 * (ss div 4))" by simp
  also have "\<dots> = 4 * nat (ss div 4)" by (simp add: nat_mult_distrib)
  finally show ?thesis by simp
qed

lemma unpack_row:
  assumes "0 \<le> ss" and "ss mod 4 = 0" and "nat ss \<le> length fp"
  shows "unpack_floats (ss div 4) (take (nat ss) fp)
       = Inr (map (\<lambda>j. unpack_f (take 4 (drop (4 * j) fp))) [0..<nat (ss div 4)])"
proof -
  have len: "4 * nat (ss div 4) = nat ss" using assms(1,2) by (rule nat_quarter)
  have "take 4 (drop (4 * j) (take (nat ss) fp)) = take 4 (drop (4 * j) fp)"
    if "j < nat (ss div 4)" for j
  proof -
    have "4 \<le> nat ss - 4 * j" using that len by linarith
    then show ?thesis by (simp add: drop_take min_def)
  qed
  then show ?thesis using assms len by (simp add: unpack_floats_def)
qed

lemma read_samples_rows:
  assumes "0 \<le> ss" and "ss mod 4 = 0" and "k * nat ss \<le> length fp"
  shows "read_samples ss k fp
       = Inr (map (\<lambda>i. map (\<lambda>j. unpack_f (take 4 (drop (i * nat ss + 4 * j) fp)))
                        [0..<nat (ss div 4)]) [0..<k])"
  using assms
proof (induction k arbitrary: fp)
  case 0
  then show ?case by simp
next
  case (Suc k)
  from Suc.prems have fits: "nat ss \<le> length fp" and rest: "k * nat ss \<le> length (drop (nat ss) fp)"
    by simp_all
  have read: "fp_read ss fp = (take (nat ss) fp, drop (nat ss) fp)"
    using Suc.prems(1) by (simp add: fp_read_def)
  have tail: "read_samples ss k (drop (nat ss) fp)
       = Inr (map (\<lambda>i. map (\<lambda>j. unpack_f (take 4 (drop (Suc i * nat ss + 4 * j) fp)))
                        [0..<nat (ss div 4)]) [0..<k])"
    using Suc.IH [OF Suc.prems(1,2) rest] by (simp add: add.commute add.left_commute)
  show ?case
    by (simp only: read_samples.simps read prod.case unpack_row [OF Suc.prems(1,2) fits]
          sum.case tail map_upt_Suc) simp
qed

lemma load_htk_legacy_file:
  assumes stored: "map_of (files fs) p = Some (Bytes bs)"
    and legacy: "legacy_file bs n sp ss"
  shows "load_htk p fs = Inr (Array2 (nat (ss div 4)) (legacy_rows bs (nat n) (nat (ss div 4))), sp)"
proof -
  from legacy obtain r where header: "unpack_iihh (take 12 bs) = Inr (n, sp, ss, r)"
    and n: "0 \<le> n" and ss: "0 \<le> ss" "ss mod 4 = 0"
    and len: "length bs = 12 + nat n * nat ss"
    by (auto simp add: legacy_file_def split: sum.splits)
  have quarter: "4 * nat (ss div 4) = nat ss" using ss by (rule nat_quarter)
  have features: "int_of_quotient ss 4 = ss div 4" "0 \<le> ss div 4"
    using ss(1) by (simp_all add: int_of_quotient_def pos_imp_zdiv_nonneg_iff)
  have "nat n * nat ss \<le> length (drop 12 bs)" using len by simp
  from read_samples_rows [OF ss this]
  have loop: "read_samples ss (nat n) (drop 12 bs)
      = Inr (map (\<lambda>i. map (\<lambda>j. unpack_f (take 4 (drop (i * nat ss + 4 * j) (drop 12 bs))))
                       [0..<nat (ss div 4)]) [0..<nat n])" .
  have offset: "drop (i * nat ss + 4 * j) (drop 12 bs)
      = drop (12 + i * (4 * nat (ss div 4)) + 4 * j) bs" for i j
    by (simp add: quarter add.commute add.left_commute)
  have rows: "read_samples ss (nat n) (drop 12 bs) = Inr (legacy_rows bs (nat n) (nat (ss div 4)))"
    by (simp only: loop offset legacy_rows_def)
  show ?thesis
    using n features
    by (simp add: load_htk_def stored fp_read_def header rows)
qed

lemma default_normalisation: "np_div (np_sub X default_mu) default_sigma = X"
proof -
  have "pf_div (pf_sub x (Num 0)) (Num 1) = x" for x
    by (cases x) simp_all
  then show ?thesis
    by (simp add: np_div_def np_sub_def default_mu_def default_sigma_def ndarray.map_comp comp_def
        ndarray.map_ident)
qed

text \<open>
  Claim C6, as amended. Let the first match of the glob be a legacy file with the header
  \<open>(n0, sp0, ss0, _)\<close> and a positive sample period \<open>sp0\<close>, let the duration given
  by the caller be positive, and let the file of the item be a legacy file with the header
  \<open>(n, sp, ss, _)\<close>. Then \<open>__init__\<close> with that duration and the defaults
  \<open>step=None\<close>, \<open>mu=0.\<close>, \<open>sigma=1.\<close> succeeds with dimension \<open>ss0 / 4\<close>, step
  \<open>sp0 * 1e-7\<close> and the sliding window of start 0, the given duration and that step;
  \<open>load_htk\<close> decodes the file of the item into the matrix of \<open>n\<close> rows and
  \<open>ss / 4\<close> columns that the layout stands for; and \<open>__call__\<close> returns this matrix
  on the sliding window of the object. The claim as written asks for neither sign; the
  constructor of the sliding window does, which \<open>zero_period_counterexample\<close> shows
  below.
\<close>

theorem legacy_decode:
  assumes found: "glob_htk glob_dirs rd fs = first # others"
    and first_file: "map_of (files fs) first = Some (Bytes bs0)"
    and first_legacy: "legacy_file bs0 n0 sp0 ss0"
    and period: "0 < sp0"
    and lasting: "0 < num_value dur"
    and item_file: "map_of (files fs) (PrecomputedHTK_get_path rd item) = Some (Bytes bs)"
    and item_legacy: "legacy_file bs n sp ss"
  shows "\<exists>self. PrecomputedHTK_init glob_dirs rd dur None default_mu default_sigma fs = Inr self
       \<and> htk_dimension_attr self = PyInt (ss0 div 4)
       \<and> htk_step self = PyFloat (real_of_int sp0 * (1 / 10 ^ 7))
       \<and> htk_sliding_window_attr self
           = \<lparr>start = PyFloat 0, duration = dur, step = PyFloat (real_of_int sp0 * (1 / 10 ^ 7))\<rparr>
       \<and> load_htk (PrecomputedHTK_get_path rd item) fs
           = Inr (Array2 (nat (ss div 4)) (legacy_rows bs (nat n) (nat (ss div 4))), sp)
       \<and> shape (Array2 (nat (ss div 4)) (legacy_rows bs (nat n) (nat (ss div 4)))) = [nat n, nat (ss div 4)]
       \<and> PrecomputedHTK_call self item fs
           = Inr \<lparr>data = Array2 (nat (ss div 4)) (legacy_rows bs (nat n) (nat (ss div 4))),
                  sliding_window = htk_sliding_window_attr self\<rparr>"
proof -
  from first_legacy have "0 \<le> ss0" by (simp add: legacy_file_def)
  then have columns: "0 \<le> ss0 div 4" by (simp add: pos_imp_zdiv_nonneg_iff)
  have window: "SlidingWindow_init dur (PyFloat (real_of_int sp0 * (1 / 10 ^ 7))) (PyFloat 0) None
      = Inr \<lparr>start = PyFloat 0, duration = dur, step = PyFloat (real_of_int sp0 * (1 / 10 ^ 7))\<rparr>"
    using period lasting by (simp add: SlidingWindow_init_def)
  have opened: "PrecomputedHTK_init glob_dirs rd dur None default_mu default_sigma fs
      = Inr \<lparr>htk_root_dir = rd, htk_duration = dur, htk_mu = default_mu, htk_sigma = default_sigma,
              htk_dimension_attr = PyInt (ss0 div 4),
              htk_step = PyFloat (real_of_int sp0 * (1 / 10 ^ 7)),
              htk_sliding_window_attr =
                \<lparr>start = PyFloat 0, duration = dur, step = PyFloat (real_of_int sp0 * (1 / 10 ^ 7))\<rparr>\<rparr>"
    using window columns
    by (simp add: PrecomputedHTK_init_def found load_htk_legacy_file [OF first_file first_legacy]
        shape_at_def Let_def)
  show ?thesis
    by (simp add: opened PrecomputedHTK_call_def Let_def
        load_htk_legacy_file [OF item_file item_legacy] default_normalisation legacy_rows_def)
qed

lemma example_header: "unpack_iihh (take 12 example_htk_bytes) = Inr (2, 100000, 8, 0)"
  by (simp add: example_htk_bytes_def unpack_iihh_def unpack_i_def unpack_h_def word_rcat_def)

lemma example_legacy_file: "legacy_file example_htk_bytes 2 100000 8"
  by (simp add: legacy_file_def example_header) (simp add: example_htk_bytes_def)

lemma example_rows:
  "legacy_rows example_htk_bytes 2 2 = [[Num 1, Num 2], [Num 3, Num 4]]"
  by (simp add: legacy_rows_def example_htk_bytes_def unpack_f_def word_rcat_def Let_def upt_rec)

lemma example_glob: "glob_htk example_glob_dirs ''feat'' example_htk_fs = [''feat/db/a.htk'']"
  by (simp add: glob_htk_def dirname_def rstrip_slash_def has_magic_def Let_def entries_def
      example_htk_fs_def matches_htk_def path_join_def two_components_def visible_name_def
      ends_with_def)

text \<open>The header \<open>(2, 100000, 8, 0)\<close> with the records \<open>(1.0, 2.0)\<close> and
  \<open>(3.0, 4.0)\<close> gives \<open>[[1.0, 2.0], [3.0, 4.0]]\<close> with step 0.01 and the default
  duration 0.025.\<close>

theorem legacy_decode_witness:
  "glob_htk example_glob_dirs ''feat'' example_htk_fs = [''feat/db/a.htk''] \<and>
   legacy_file example_htk_bytes 2 100000 8 \<and>
   (0::int) < 100000 \<and> 0 < num_value default_duration \<and>
   (\<exists>self. PrecomputedHTK_init example_glob_dirs ''feat'' default_duration None default_mu
              default_sigma example_htk_fs
        = Inr self
      \<and> htk_dimension_attr self = PyInt 2
      \<and> htk_step self = PyFloat (1 / 100)
      \<and> htk_sliding_window_attr self
          = \<lparr>start = PyFloat 0, duration = PyFloat (25 / 1000), step = PyFloat (1 / 100)\<rparr>
      \<and> PrecomputedHTK_call self ''db/a'' example_htk_fs
          = Inr \<lparr>data = Array2 2 [[Num 1, Num 2], [Num 3, Num 4]],
                 sliding_window =
                   \<lparr>start = PyFloat 0, duration = PyFloat (25 / 1000), step = PyFloat (1 / 100)\<rparr>\<rparr>)"
proof -
  have stored: "map_of (files example_htk_fs) ''feat/db/a.htk'' = Some (Bytes example_htk_bytes)"
    by (simp add: example_htk_fs_def)
  have stored': "map_of (files example_htk_fs) (PrecomputedHTK_get_path ''feat'' ''db/a'')
      = Some (Bytes example_htk_bytes)"
    by (simp add: example_htk_fs_def PrecomputedHTK_get_path_def get_unique_identifier_def)
  have period: "(0::int) < 100000" by simp
  have lasting: "0 < num_value default_duration" by (simp add: default_duration_def)
  from legacy_decode [OF example_glob stored example_legacy_file period lasting stored'
      example_legacy_file]
  show ?thesis
    using lasting
    by (auto simp add: example_glob example_legacy_file example_rows default_duration_def)
qed

lemma example_zero_period_header:
  "unpack_iihh (take 12 example_zero_period_bytes) = Inr (2, 0, 8, 0)"
  by (simp add: example_zero_period_bytes_def unpack_iihh_def unpack_i_def unpack_h_def
      word_rcat_def)

lemma example_zero_period_legacy_file: "legacy_file example_zero_period_bytes 2 0 8"
  by (simp add: legacy_file_def example_zero_period_header)
    (simp add: example_zero_period_bytes_def)

lemma example_zero_period_glob:
  "glob_htk example_glob_dirs ''feat'' example_zero_period_fs = [''feat/db/a.htk'']"
  by (simp add: glob_htk_def dirname_def rstrip_slash_def has_magic_def Let_def entries_def
      example_zero_period_fs_def matches_htk_def path_join_def two_components_def
      visible_name_def ends_with_def)

text \<open>
  Claim C6 as written fails: the file with the header \<open>(2, 0, 8, 0)\<close> and the same two
  records is a legacy file and the only match of the glob, and \<open>__init__\<close> derives the
  step \<open>0 * 1e-7 = 0\<close>, which the constructor of the sliding window refuses. The
  constructor also refuses the duration 0 for the file with the sample period 100000. In
  both cases no object is built and no matrix is wrapped on a grid.
\<close>

theorem zero_period_counterexample:
  "legacy_file example_zero_period_bytes 2 0 8 \<and>
   glob_htk example_glob_dirs ''feat'' example_zero_period_fs = [''feat/db/a.htk''] \<and>
   PrecomputedHTK_init example_glob_dirs ''feat'' default_duration None default_mu default_sigma
     example_zero_period_fs
     = Inl (ValueError ([sq] @ ''step'' @ [sq] @ '' must be a float > 0.'')) \<and>
   legacy_file example_htk_bytes 2 100000 8 \<and>
   glob_htk example_glob_dirs ''feat'' example_htk_fs = [''feat/db/a.htk''] \<and>
   PrecomputedHTK_init example_glob_dirs ''feat'' (PyFloat 0) None default_mu default_sigma
     example_htk_fs
     = Inl (ValueError ([sq] @ ''duration'' @ [sq] @ '' must be a float > 0.''))"
proof -
  have good: "map_of (files example_htk_fs) ''feat/db/a.htk'' = Some (Bytes example_htk_bytes)"
    by (simp add: example_htk_fs_def)
  have no_duration: "PrecomputedHTK_init example_glob_dirs ''feat'' (PyFloat 0) None default_mu
      default_sigma example_htk_fs
      = Inl (ValueError ([sq] @ ''duration'' @ [sq] @ '' must be a float > 0.''))"
    by (simp add: PrecomputedHTK_init_def example_glob
        load_htk_legacy_file [OF good example_legacy_file] shape_at_def Let_def
        SlidingWindow_init_def msg_duration_def)
  have stored: "map_of (files example_zero_period_fs) ''feat/db/a.htk''
      = Some (Bytes example_zero_period_bytes)"
    by (simp add: example_zero_period_fs_def)
  have "PrecomputedHTK_init example_glob_dirs ''feat'' default_duration None default_mu
      default_sigma example_zero_period_fs
      = Inl (ValueError ([sq] @ ''step'' @ [sq] @ '' must be a float > 0.''))"
    by (simp add: PrecomputedHTK_init_def example_zero_period_glob
        load_htk_legacy_file [OF stored example_zero_period_legacy_file] shape_at_def Let_def
        SlidingWindow_init_def default_duration_def msg_step_def)
  with example_zero_period_legacy_file example_zero_period_glob no_duration
    example_legacy_file example_glob
  show ?thesis by simp
qed

section \<open>The legacy reader: the scan and the missing file\<close>





lemma dirname_star:
  "dirname (rd @ ''/*'')
     = (if rstrip_slash (rd @ ''/'') \<noteq> [] then rstrip_slash (rd @ ''/'') else rd @ ''/'')"
  by (simp add: dirname_def Let_def)


lemma dirname_of_plain_root:
  assumes "rd \<noteq> []" and "last rd \<noteq> CHR ''/''"
  shows "dirname (rd @ ''/*'') = rd"
proof -
  from assms have "hd (rev rd) \<noteq> CHR ''/''" by (simp add: hd_rev)
  with assms(1) have "dropWhile (\<lambda>c. c = CHR ''/'') (rev rd) = rev rd"
    by (cases "rev rd") auto
  then have "rstrip_slash (rd @ ''/'') = rd" by (simp add: rstrip_slash_def)
  with assms(1) show ?thesis by (simp add: dirname_star)
qed








text \<open>
  Claim C10. When nothing exists at the path of a key, \<open>__call__\<close> of the legacy reader
  fails with the \<open>IOError\<close> of \<open>open\<close> on that path: \<open>load_htk\<close> opens the file
  without a test for its existence. The matrix cache raises its own
  \<open>PyannoteFeatureExtractionError\<close> for a key without a file, so the two results
  differ.
\<close>

theorem legacy_read_absent_key:
  assumes "\<not> path_exists fs (PrecomputedHTK_get_path (htk_root_dir legacy) item)"
    and "\<not> path_exists fs (Precomputed_get_path native item)"
  shows "PrecomputedHTK_call legacy item fs
           = Inl (IOError (PrecomputedHTK_get_path (htk_root_dir legacy) item))
       \<and> fst (Precomputed_call native item fs)
           = Inl (PyannoteFeatureExtractionError (msg_no_features (get_unique_identifier item)))
       \<and> PrecomputedHTK_call legacy item fs \<noteq> fst (Precomputed_call native item fs)"
  using assms
  by (simp add: PrecomputedHTK_call_def Let_def load_htk_def absent_lookup Precomputed_call_def)

text \<open>The key \<open>db/zz\<close>, for which the example has neither a legacy file nor an
  array.\<close>

theorem legacy_read_absent_key_witness:
  "\<not> path_exists example_htk_fs (PrecomputedHTK_get_path ''feat'' ''db/zz'') \<and>
   \<not> path_exists example_htk_fs (Precomputed_get_path (example_cache None None) ''db/zz'') \<and>
   PrecomputedHTK_call
     \<lparr>htk_root_dir = ''feat'', htk_duration = default_duration, htk_mu = default_mu,
      htk_sigma = default_sigma, htk_dimension_attr = PyInt 2, htk_step = PyFloat (1 / 100),
      htk_sliding_window_attr = example_window\<rparr> ''db/zz'' example_htk_fs
     = Inl (IOError ''feat/db/zz.htk'') \<and>
   fst (Precomputed_call (example_cache None None) ''db/zz'' example_htk_fs)
     = Inl (PyannoteFeatureExtractionError (msg_no_features ''db/zz''))"
  using legacy_read_absent_key [of example_htk_fs
      "\<lparr>htk_root_dir = ''feat'', htk_duration = default_duration, htk_mu = default_mu,
        htk_sigma = default_sigma, htk_dimension_attr = PyInt 2, htk_step = PyFloat (1 / 100),
        htk_sliding_window_attr = example_window\<rparr>" "''db/zz''" "example_cache None None"]
  by (simp add: path_exists_def entries_def example_htk_fs_def PrecomputedHTK_get_path_def
      Precomputed_get_path_def get_unique_identifier_def example_cache_def)

section \<open>read_audio: the shape of the samples\<close>

text \<open>
  Claim C7. The claim, like the docstring of \<open>read_audio\<close>, expects samples of shape
  \<open>(n_samples, n_channels)\<close>, and \<open>(n_samples, 1)\<close> after a channel is selected. For
  two channels of three samples with \<open>channel = 2\<close> and without the mix to mono, the
  source returns the samples of the second channel, \<open>[4, 5, 6]\<close>, as an array of one
  dimension and shape \<open>(3,)\<close>: \<open>y[channel - 1, :]\<close> drops the first axis, and the
  transpose of an array of one dimension is the array. Without the key \<open>channel\<close> the
  same input gives shape \<open>(3, 2)\<close>.
\<close>

theorem read_audio_channel_is_flat:
  "read_audio example_lib \<lparr>audio = ''a.wav'', channel = Some 2\<rparr> None False
     = Inr (Array1 [4, 5, 6], 16000)
   \<and> shape (Array1 [4, 5, 6 :: int]) = [3]
   \<and> read_audio example_lib \<lparr>audio = ''a.wav'', channel = None\<rparr> None False
     = Inr (Array2 2 [[1, 4], [2, 5], [3, 6]], 16000)"
  by (simp add: read_audio_def example_lib_def ndim_def Let_def upt_rec)

end
